theory Spec2Isabelle
  imports Complex_Main
begin

section \<open>Go's float64\<close>

text \<open>
  Every number in \<^verbatim>\<open>commands.go\<close> is a \<^verbatim>\<open>float64\<close>: an IEEE 754 binary64 value.
  A value is a NaN, one of the two infinities, or a finite number. The finite numbers are
  carried by their real value, so the model has more finite values than the machine has;
  a theorem for all \<open>f64\<close> holds for all machine values. The two zeros are one value
  here: Go's \<^verbatim>\<open><\<close>, \<^verbatim>\<open>></\<close> and \<^verbatim>\<open>math.Abs\<close> followed by a comparison do not tell them
  apart. All NaNs are one value.
\<close>

datatype f64 = NaN | PInf | NInf | Fin real

text \<open>Go's \<^verbatim>\<open>x < y\<close> and \<^verbatim>\<open>x > y\<close>: false as soon as one operand is a NaN.\<close>

fun f64_lt :: "f64 \<Rightarrow> f64 \<Rightarrow> bool" where
  "f64_lt NaN _ = False"
| "f64_lt _ NaN = False"
| "f64_lt (Fin a) (Fin b) = (a < b)"
| "f64_lt NInf NInf = False"
| "f64_lt NInf _ = True"
| "f64_lt _ NInf = False"
| "f64_lt PInf _ = False"
| "f64_lt _ PInf = True"

definition f64_gt :: "f64 \<Rightarrow> f64 \<Rightarrow> bool" where
  "f64_gt x y = f64_lt y x"

text \<open>\<^verbatim>\<open>math.Abs\<close> and unary minus.\<close>

fun f64_abs :: "f64 \<Rightarrow> f64" where
  "f64_abs NaN = NaN"
| "f64_abs PInf = PInf"
| "f64_abs NInf = PInf"
| "f64_abs (Fin a) = Fin \<bar>a\<bar>"

fun f64_neg :: "f64 \<Rightarrow> f64" where
  "f64_neg NaN = NaN"
| "f64_neg PInf = NInf"
| "f64_neg NInf = PInf"
| "f64_neg (Fin a) = Fin (- a)"

subsection \<open>Rounding to nearest, ties to even\<close>

text \<open>\<open>ilog2 n\<close> is the position of the highest set bit of \<open>n\<close>, for \<open>n \<ge> 1\<close>.\<close>

function ilog2 :: "int \<Rightarrow> int" where
  "ilog2 n = (if n < 2 then 0 else 1 + ilog2 (n div 2))"
  by pat_completeness auto
termination
  by (relation "measure nat") auto

declare ilog2.simps [simp del]

definition round_even :: "real \<Rightarrow> int" where
  "round_even x =
     (let f = \<lfloor>x\<rfloor>; d = x - of_int f
      in if d < 1/2 then f else if 1/2 < d then f + 1 else if even f then f else f + 1)"

text \<open>
  The binary exponent of a positive real, \<open>\<lfloor>log\<^sub>2 a\<rfloor>\<close>, not below the exponent \<open>-1022\<close> of
  the subnormal numbers.
\<close>

definition f64_exponent :: "real \<Rightarrow> int" where
  "f64_exponent a =
     max (-1022) (if 1 \<le> a then ilog2 \<lfloor>a\<rfloor> else - (ilog2 (\<lceil>1 / a\<rceil> - 1) + 1))"

text \<open>
  The float64 nearest to a real: 53 significant bits, the spacing \<open>2\<^sup>-\<^sup>1\<^sup>0\<^sup>7\<^sup>4\<close> below
  \<open>2\<^sup>-\<^sup>1\<^sup>0\<^sup>2\<^sup>2\<close>, an infinity when the rounded value reaches \<open>2\<^sup>1\<^sup>0\<^sup>2\<^sup>4\<close>. Go converts a
  numeric constant used as a \<^verbatim>\<open>float64\<close> this way, and every arithmetic operation rounds
  its exact result this way.
\<close>

definition f64_overflow :: real where
  "f64_overflow = 2 ^ 1024"

definition round_f64 :: "real \<Rightarrow> f64" where
  "round_f64 x =
     (if x = 0 then Fin 0
      else let q = 2 powi (f64_exponent \<bar>x\<bar> - 52);
               r = of_int (round_even (x / q)) * q
           in if f64_overflow \<le> r then PInf
              else if r \<le> - f64_overflow then NInf
              else Fin r)"

text \<open>Go's \<^verbatim>\<open>x - y\<close>.\<close>

fun f64_sub :: "f64 \<Rightarrow> f64 \<Rightarrow> f64" where
  "f64_sub NaN _ = NaN"
| "f64_sub _ NaN = NaN"
| "f64_sub (Fin a) (Fin b) = round_f64 (a - b)"
| "f64_sub PInf PInf = NaN"
| "f64_sub NInf NInf = NaN"
| "f64_sub PInf _ = PInf"
| "f64_sub NInf _ = NInf"
| "f64_sub _ PInf = NInf"
| "f64_sub _ NInf = PInf"

section \<open>The constants of the kinematic envelope\<close>

definition positionTol :: f64 where
  "positionTol = round_f64 (1 / 10000)"

definition speedTol :: f64 where
  "speedTol = round_f64 (1 / 10000)"

definition maxFreeProgramTrackStack :: int where
  "maxFreeProgramTrackStack = 10000"

definition azimuthMin :: f64 where
  "azimuthMin = round_f64 (- 180)"

definition azimuthMax :: f64 where
  "azimuthMax = round_f64 360"

definition azimuthSpeedMax :: f64 where
  "azimuthSpeedMax = round_f64 3"

definition elevationMin :: f64 where
  "elevationMin = round_f64 0"

definition elevationMax :: f64 where
  "elevationMax = round_f64 180"

definition elevationSpeedMax :: f64 where
  "elevationSpeedMax = round_f64 (3 / 2)"

section \<open>Errors and the diagnostic log\<close>

text \<open>
  An error of \<^verbatim>\<open>commands.go\<close> is a formatted message. The model keeps the message's
  parts: which quantity, its value, the range printed after it. \<open>Foreign\<close> is an error
  made outside this file (the motion facade, a trajectory producer).
\<close>

datatype quantity =
  CommandedAzimuth | CommandedElevation | CommandedAzimuthVel | CommandedElevationVel

fun quantity_text :: "quantity \<Rightarrow> string" where
  "quantity_text CommandedAzimuth = ''commanded azimuth''"
| "quantity_text CommandedElevation = ''commanded elevation''"
| "quantity_text CommandedAzimuthVel = ''commanded azimuth vel''"
| "quantity_text CommandedElevationVel = ''commanded elevation vel''"

datatype error =
    OutOfRange quantity f64 f64 f64
  | BadCoordinateSystem string
  | BadTimes f64 f64
  | NoPointsInPath
  | PointsTooClose
  | PointError nat error
  | Foreign string

text \<open>
  The log is the list of messages given to \<^verbatim>\<open>log.Print\<close>, oldest first. \<open>reject\<close> is the
  body of each failing branch of \<^verbatim>\<open>checkAzEl\<close>: print the message, return it as the error.
\<close>

type_synonym logger = "error list"

definition reject :: "error \<Rightarrow> logger \<Rightarrow> error option \<times> logger" where
  "reject e lg = (Some e, lg @ [e])"

section \<open>The kinematic validator\<close>

definition checkAzEl :: "f64 \<Rightarrow> f64 \<Rightarrow> f64 \<Rightarrow> f64 \<Rightarrow> logger \<Rightarrow> error option \<times> logger" where
  "checkAzEl az el vaz vel lg =
     (if f64_lt az azimuthMin \<or> f64_gt az azimuthMax then
        reject (OutOfRange CommandedAzimuth az azimuthMin azimuthMax) lg
      else if f64_lt el elevationMin \<or> f64_gt el elevationMax then
        reject (OutOfRange CommandedElevation el elevationMin elevationMax) lg
      else if f64_gt (f64_abs vaz) azimuthSpeedMax then
        reject (OutOfRange CommandedAzimuthVel vaz (f64_neg azimuthSpeedMax) azimuthSpeedMax) lg
      else if f64_gt (f64_abs vel) elevationSpeedMax then
        reject (OutOfRange CommandedElevationVel vel (f64_neg elevationSpeedMax) elevationSpeedMax) lg
      else (None, lg))"

section \<open>Telemetry and completion predicates\<close>

text \<open>
  \<^verbatim>\<open>datasets.StatusGeneral8100\<close> is declared outside this file. The record has the
  fields \<^verbatim>\<open>commands.go\<close> reads. The two mode enumerations are type parameters, and their
  \<^verbatim>\<open>Preset\<close> values are taken as parameters below. The stack count is an integer field
  compared with the constant 9999. A predicate of the code gets a pointer to a snapshot
  and a predicate of the model gets the snapshot: a nil pointer, on which the code panics,
  is not a snapshot.
\<close>

record ('am, 'em) StatusGeneral8100 =
  AzimuthMode :: 'am
  ElevationMode :: 'em
  AzimuthCurrentPosition :: f64
  AzimuthCommandedPosition :: f64
  ElevationCurrentPosition :: f64
  ElevationCommandedPosition :: f64
  AzimuthCurrentVelocity :: f64
  ElevationCurrentVelocity :: f64
  QtyOfFreeProgramTrackStackPositions :: int

type_synonym ('am, 'em) IsDoneFunc = "('am, 'em) StatusGeneral8100 \<Rightarrow> bool \<times> error option"

section \<open>The scan pattern boundary and the motion facade\<close>

text \<open>
  \<^verbatim>\<open>ScanPattern\<close>, its constructors and \<^verbatim>\<open>Telescope\<close> are code of this repository
  outside \<^verbatim>\<open>commands.go\<close>. A pattern is what \<^verbatim>\<open>pathCmd.Check\<close> calls on it: a fresh
  iterator, \<^verbatim>\<open>Done\<close>, and \<^verbatim>\<open>Next\<close>, which fails with a message or fills in a point and
  advances the iterator.
\<close>

record TimePositionTransfer =
  AzPosition :: f64
  ElPosition :: f64
  AzVelocity :: f64
  ElVelocity :: f64

record 'it ScanPattern =
  Iterator :: 'it
  Done :: "'it \<Rightarrow> bool"
  Next :: "'it \<Rightarrow> string + TimePositionTransfer \<times> 'it"

text \<open>
  The facade answers a synchronous call with an error message or with none.
  \<^verbatim>\<open>UploadScanPattern\<close> is only ever started in a goroutine of its own, and its answer is
  read by nobody but the log.
\<close>

record Telescope =
  MoveTo :: "f64 \<Rightarrow> f64 \<Rightarrow> string option"
  ModeSet :: "string \<Rightarrow> string option"

text \<open>What a \<^verbatim>\<open>Start\<close> did to the facade, in order.\<close>

datatype 'it operation =
    CallMoveTo f64 f64
  | CallModeSet string
  | GoUploadScanPattern "'it ScanPattern"

record ('am, 'em, 'it) started =
  IsDone :: "('am, 'em) IsDoneFunc option"
  Err :: "error option"
  Issued :: "'it operation list"

section \<open>The commands\<close>

record moveToCmd =
  Azimuth :: f64
  Elevation :: f64

text \<open>\<^verbatim>\<open>time.Time\<close> is kept as a number of nanoseconds; no code of this file looks into it.\<close>

type_synonym Time = int

record azScanCmd =
  AzimuthRange :: "f64 \<times> f64"
  Elevation :: f64
  NumScans :: int
  StartTime :: Time
  TurnaroundTime :: f64
  Speed :: f64

record trackCmd =
  StartTime :: f64
  StopTime :: f64
  RA :: f64
  Dec :: f64
  Coordsys :: string

text \<open>A point of a path is \<^verbatim>\<open>[5]float64\<close>; index 0, the time, is the first component.\<close>

type_synonym point = "f64 \<times> f64 \<times> f64 \<times> f64 \<times> f64"

record pathCmd =
  Coordsys :: string
  Points :: "point list"

datatype Command =
    Point moveToCmd
  | AzimuthScan azScanCmd
  | Track trackCmd
  | Path pathCmd

text \<open>
  The names \<^verbatim>\<open>commands.go\<close> uses and does not define. \<open>NewAzimuthScanPattern\<close> gets
  the command's fields as they are; the conversion of the turnaround time to a
  \<^verbatim>\<open>time.Duration\<close> belongs to it here. \<open>NewTrackScanPattern\<close> gets the two Unix times
  before \<^verbatim>\<open>Unixtime2Time\<close>.
\<close>

record ('am, 'em, 'it) Externals =
  AzimuthModePreset :: 'am
  ElevationModePreset :: 'em
  NewAzimuthScanPattern :: "Time \<Rightarrow> int \<Rightarrow> f64 \<Rightarrow> f64 \<times> f64 \<Rightarrow> f64 \<Rightarrow> f64 \<Rightarrow> 'it ScanPattern"
  NewTrackScanPattern :: "f64 \<Rightarrow> f64 \<Rightarrow> f64 \<Rightarrow> f64 \<Rightarrow> string \<Rightarrow> string + 'it ScanPattern"
  NewPathScanPattern :: "string \<Rightarrow> point list \<Rightarrow> 'it ScanPattern"

subsection \<open>Point\<close>


definition moveToCmd_isDone ::
  "('am, 'em, 'it) Externals \<Rightarrow> ('am, 'em) IsDoneFunc" where
  "moveToCmd_isDone ext rec =
     (let done =
        AzimuthMode rec = AzimuthModePreset ext \<and>
        ElevationMode rec = ElevationModePreset ext \<and>
        f64_lt (f64_abs (f64_sub (AzimuthCurrentPosition rec) (AzimuthCommandedPosition rec)))
          positionTol \<and>
        f64_lt (f64_abs (f64_sub (ElevationCurrentPosition rec) (ElevationCommandedPosition rec)))
          positionTol \<and>
        f64_lt (f64_abs (AzimuthCurrentVelocity rec)) speedTol \<and>
        f64_lt (f64_abs (ElevationCurrentVelocity rec)) speedTol
      in (done, None))"

definition moveToCmd_Start ::
  "('am, 'em, 'it) Externals \<Rightarrow> Telescope \<Rightarrow> moveToCmd \<Rightarrow> ('am, 'em, 'it) started" where
  "moveToCmd_Start ext tel cmd =
     (let err = MoveTo tel (Azimuth cmd) (moveToCmd.Elevation cmd);
          isDone = moveToCmd_isDone ext
      in \<lparr>IsDone = Some isDone, Err = map_option Foreign err,
          Issued = [CallMoveTo (Azimuth cmd) (moveToCmd.Elevation cmd)]\<rparr>)"

subsection \<open>The shared pattern start\<close>

definition startPattern_isDone :: "('am, 'em) IsDoneFunc" where
  "startPattern_isDone rec =
     (let done =
        QtyOfFreeProgramTrackStackPositions rec = maxFreeProgramTrackStack - 1 \<and>
        f64_lt (f64_abs (AzimuthCurrentVelocity rec)) speedTol \<and>
        f64_lt (f64_abs (ElevationCurrentVelocity rec)) speedTol
      in (done, None))"

definition startPattern :: "Telescope \<Rightarrow> 'it ScanPattern \<Rightarrow> ('am, 'em, 'it) started" where
  "startPattern tel pattern =
     \<lparr>IsDone = Some startPattern_isDone,
      Err = map_option Foreign (ModeSet tel ''ProgramTrack''),
      Issued = [GoUploadScanPattern pattern, CallModeSet ''ProgramTrack'']\<rparr>"

subsection \<open>AzimuthScan\<close>


definition azScanCmd_Start ::
  "('am, 'em, 'it) Externals \<Rightarrow> Telescope \<Rightarrow> azScanCmd \<Rightarrow> ('am, 'em, 'it) started" where
  "azScanCmd_Start ext tel cmd =
     (let pattern = NewAzimuthScanPattern ext (azScanCmd.StartTime cmd) (NumScans cmd)
            (azScanCmd.Elevation cmd) (AzimuthRange cmd) (Speed cmd) (TurnaroundTime cmd)
      in startPattern tel pattern)"

subsection \<open>Track\<close>

definition trackCmd_Check :: "trackCmd \<Rightarrow> error option" where
  "trackCmd_Check cmd =
     (if \<not> (trackCmd.Coordsys cmd = ''Horizon'' \<or> trackCmd.Coordsys cmd = ''ICRS'') then
        Some (BadCoordinateSystem (trackCmd.Coordsys cmd))
      else if f64_lt (StopTime cmd) (trackCmd.StartTime cmd) then
        Some (BadTimes (trackCmd.StartTime cmd) (StopTime cmd))
      else None)"

definition trackCmd_Start ::
  "('am, 'em, 'it) Externals \<Rightarrow> Telescope \<Rightarrow> trackCmd \<Rightarrow> ('am, 'em, 'it) started" where
  "trackCmd_Start ext tel cmd =
     (case NewTrackScanPattern ext (trackCmd.StartTime cmd) (StopTime cmd) (RA cmd) (Dec cmd)
             (trackCmd.Coordsys cmd) of
        Inl err \<Rightarrow> \<lparr>IsDone = None, Err = Some (Foreign err), Issued = []\<rparr>
      | Inr pattern \<Rightarrow> startPattern tel pattern)"

subsection \<open>Path\<close>

text \<open>
  The loop over the times: \<open>True\<close> when it runs to its end, \<open>False\<close> when it returns
  the spacing error. The literal \<^verbatim>\<open>0.05\<close> is converted to \<^verbatim>\<open>float64\<close>.
\<close>

fun times_separated :: "point list \<Rightarrow> bool" where
  "times_separated (p # q # ps) =
     (if f64_lt (f64_sub (fst q) (fst p)) (round_f64 (5 / 100)) then False
      else times_separated (q # ps))"
| "times_separated _ = True"

text \<open>
  The loop over the first coordinates, \<^verbatim>\<open>for i := 0; i < 100; i++\<close>: \<open>n\<close> is the number
  of rounds left and \<open>i\<close> the loop variable, so the loop is \<open>check_coordinates p 100 0\<close>.
\<close>

fun check_coordinates ::
  "'it ScanPattern \<Rightarrow> nat \<Rightarrow> nat \<Rightarrow> 'it \<Rightarrow> logger \<Rightarrow> error option \<times> logger" where
  "check_coordinates pattern 0 i iter lg = (None, lg)"
| "check_coordinates pattern (Suc n) i iter lg =
     (if Done pattern iter then (None, lg)
      else case Next pattern iter of
        Inl err \<Rightarrow> (Some (Foreign err), lg)
      | Inr (pt, iter') \<Rightarrow>
          (case checkAzEl (AzPosition pt) (ElPosition pt) (AzVelocity pt) (ElVelocity pt) lg of
             (Some err, lg') \<Rightarrow> (Some (PointError i err), lg')
           | (None, lg') \<Rightarrow> check_coordinates pattern n (Suc i) iter' lg'))"

definition pathCmd_Check ::
  "('am, 'em, 'it) Externals \<Rightarrow> pathCmd \<Rightarrow> logger \<Rightarrow> error option \<times> logger" where
  "pathCmd_Check ext cmd lg =
     (if \<not> (pathCmd.Coordsys cmd = ''Horizon'' \<or> pathCmd.Coordsys cmd = ''ICRS'') then
        (Some (BadCoordinateSystem (pathCmd.Coordsys cmd)), lg)
      else if length (Points cmd) = 0 then (Some NoPointsInPath, lg)
      else if \<not> times_separated (Points cmd) then (Some PointsTooClose, lg)
      else
        (let pattern = NewPathScanPattern ext (pathCmd.Coordsys cmd) (Points cmd)
         in check_coordinates pattern 100 0 (Iterator pattern) lg))"

definition pathCmd_Start ::
  "('am, 'em, 'it) Externals \<Rightarrow> Telescope \<Rightarrow> pathCmd \<Rightarrow> ('am, 'em, 'it) started" where
  "pathCmd_Start ext tel cmd =
     (let pattern = NewPathScanPattern ext (pathCmd.Coordsys cmd) (Points cmd)
      in startPattern tel pattern)"

subsection \<open>The Command interface\<close>


fun Start ::
  "('am, 'em, 'it) Externals \<Rightarrow> Telescope \<Rightarrow> Command \<Rightarrow> ('am, 'em, 'it) started" where
  "Start ext tel (Point cmd) = moveToCmd_Start ext tel cmd"
| "Start ext tel (AzimuthScan cmd) = azScanCmd_Start ext tel cmd"
| "Start ext tel (Track cmd) = trackCmd_Start ext tel cmd"
| "Start ext tel (Path cmd) = pathCmd_Start ext tel cmd"

section \<open>Notions the statements use\<close>

text \<open>
  \<open>in_range lo hi x\<close>: the value \<open>x\<close> lies in the closed interval; a NaN and the
  infinities lie in no interval.
\<close>

fun in_range :: "real \<Rightarrow> real \<Rightarrow> f64 \<Rightarrow> bool" where
  "in_range lo hi (Fin a) = (lo \<le> a \<and> a \<le> hi)"
| "in_range lo hi _ = False"

text \<open>
  \<open>is_float64 x\<close>: the value is one the machine has. A finite real is a float64 when
  rounding leaves it as it is.
\<close>

definition is_float64 :: "f64 \<Rightarrow> bool" where
  "is_float64 x = (case x of Fin r \<Rightarrow> round_f64 r = Fin r | _ \<Rightarrow> True)"

text \<open>
  \<open>below t x\<close>: \<open>x\<close> is a number of magnitude less than \<open>t\<close>.
  \<open>under t x\<close>: \<open>x\<close> is less than \<open>t\<close>. Neither holds of a NaN.
\<close>

definition below :: "real \<Rightarrow> f64 \<Rightarrow> bool" where
  "below t x = (case x of Fin r \<Rightarrow> \<bar>r\<bar> < t | _ \<Rightarrow> False)"

definition under :: "real \<Rightarrow> f64 \<Rightarrow> bool" where
  "under t x = (case x of Fin r \<Rightarrow> r < t | NInf \<Rightarrow> True | _ \<Rightarrow> False)"

text \<open>
  What a pattern shows in its first \<open>n\<close> rounds: the points it produces, up to the
  round where it is done or fails.
\<close>

datatype outcome = Exhausted | Failed string | Produced TimePositionTransfer

fun produced :: "'it ScanPattern \<Rightarrow> nat \<Rightarrow> 'it \<Rightarrow> outcome list" where
  "produced pattern 0 iter = []"
| "produced pattern (Suc n) iter =
     (if Done pattern iter then [Exhausted]
      else case Next pattern iter of
        Inl err \<Rightarrow> [Failed err]
      | Inr (pt, iter') \<Rightarrow> Produced pt # produced pattern n iter')"

text \<open>The validator on a produced point, without the log.\<close>

definition verdict :: "TimePositionTransfer \<Rightarrow> error option" where
  "verdict pt = fst (checkAzEl (AzPosition pt) (ElPosition pt) (AzVelocity pt) (ElVelocity pt) [])"

text \<open>
  Modelled from the spec: the producers behind \<^verbatim>\<open>NewPathScanPattern\<close>,
  \<^verbatim>\<open>NewTrackScanPattern\<close> and \<^verbatim>\<open>NewAzimuthScanPattern\<close> are not in \<^verbatim>\<open>commands.go\<close>.
  Section 4.4 of the specification asks of a producer a fresh iterator, a test for the
  end and a step that yields the next point. \<open>replay\<close> is one such producer: it yields the
  points of the list in order, coordinates and velocities unchanged. The theorems below
  hold for every producer; \<open>replay\<close>, \<open>bench\<close>, \<open>facade\<close> and \<open>ramp\<close> only fill the
  parameters where a theorem is applied to a concrete command.
\<close>

definition point_transfer :: "point \<Rightarrow> TimePositionTransfer" where
  "point_transfer p =
     (case p of (t, az, el, vaz, vel) \<Rightarrow>
        \<lparr>AzPosition = az, ElPosition = el, AzVelocity = vaz, ElVelocity = vel\<rparr>)"

definition replay :: "string \<Rightarrow> point list \<Rightarrow> (point list) ScanPattern" where
  "replay coordsys points =
     \<lparr>Iterator = points,
      Done = (\<lambda>iter. iter = []),
      Next = (\<lambda>iter. case iter of
                [] \<Rightarrow> Inl ''pattern exhausted''
              | p # rest \<Rightarrow> Inr (point_transfer p, rest))\<rparr>"

definition bench :: "(nat, nat, point list) Externals" where
  "bench =
     \<lparr>AzimuthModePreset = 1, ElevationModePreset = 1,
      NewAzimuthScanPattern = (\<lambda>start n el range speed turnaround. replay ''Horizon'' []),
      NewTrackScanPattern = (\<lambda>start stop ra dec coordsys.
         if coordsys = ''ICRS'' then Inl ''no ephemeris'' else Inr (replay coordsys [])),
      NewPathScanPattern = replay\<rparr>"

definition facade :: "string option \<Rightarrow> Telescope" where
  "facade answer = \<lparr>MoveTo = (\<lambda>az el. answer), ModeSet = (\<lambda>mode. answer)\<rparr>"

text \<open>\<open>ramp n\<close>: \<open>n\<close> points one second apart, all at azimuth 0 and elevation 0, at rest.\<close>

definition ramp :: "nat \<Rightarrow> point list" where
  "ramp n = map (\<lambda>k. (Fin (real k), Fin 0, Fin 0, Fin 0, Fin 0)) [0..<n]"

section \<open>Rounding: the exponent, and the values rounding keeps\<close>

lemma ilog2_bounds:
  "1 \<le> n \<Longrightarrow> 0 \<le> ilog2 n \<and> 2 ^ nat (ilog2 n) \<le> n \<and> n < 2 ^ (nat (ilog2 n) + 1)"
proof (induction n rule: ilog2.induct)
  case (1 n)
  show ?case
  proof (cases "n < 2")
    case True
    with "1.prems" have "n = 1" by simp
    then show ?thesis by (simp add: ilog2.simps)
  next
    case False
    then have m: "1 \<le> n div 2" by simp
    from "1.IH"[OF False m] have k: "0 \<le> ilog2 (n div 2)"
      and lo: "2 ^ nat (ilog2 (n div 2)) \<le> n div 2"
      and hi: "n div 2 < 2 ^ (nat (ilog2 (n div 2)) + 1)" by simp_all
    have eq: "ilog2 n = 1 + ilog2 (n div 2)" using False by (subst ilog2.simps) simp
    have nat_eq: "nat (ilog2 n) = Suc (nat (ilog2 (n div 2)))" using k eq by simp
    have "2 * (n div 2) \<le> n" by simp
    moreover have "n < 2 * (n div 2) + 2" by simp
    ultimately show ?thesis using k lo hi eq nat_eq by simp
  qed
qed


lemma ilog2_powi:
  assumes "1 \<le> n"
  shows "(2::real) powi ilog2 n \<le> of_int n" and "of_int n + 1 \<le> (2::real) powi (ilog2 n + 1)"
proof -
  define k where "k = nat (ilog2 n)"
  from ilog2_bounds[OF assms] have k: "ilog2 n = int k" and lo: "2 ^ k \<le> n" and hi: "n + 1 \<le> 2 ^ (k + 1)"
    by (simp_all add: k_def)
  have "(of_int (2 ^ k) :: real) \<le> of_int n" using lo by (simp only: of_int_le_iff)
  then show "(2::real) powi ilog2 n \<le> of_int n" by (simp add: k)
  have "(of_int (n + 1) :: real) \<le> of_int (2 ^ (k + 1))" using hi by (simp only: of_int_le_iff)
  moreover have "ilog2 n + 1 = int (k + 1)" using k by simp
  ultimately show "of_int n + 1 \<le> (2::real) powi (ilog2 n + 1)"
    by (simp only: power_int_of_nat) simp
qed

lemma f64_exponent_spec:
  assumes "0 < a"
  shows "- 1022 \<le> f64_exponent a"
    and "a < 2 powi (f64_exponent a + 1)"
    and "f64_exponent a = - 1022 \<or> 2 powi (f64_exponent a) \<le> a"
proof -
  define e0 where "e0 = (if 1 \<le> a then ilog2 \<lfloor>a\<rfloor> else - (ilog2 (\<lceil>1 / a\<rceil> - 1) + 1))"
  have e: "f64_exponent a = max (- 1022) e0" by (simp add: f64_exponent_def e0_def)
  have raw: "2 powi e0 \<le> a \<and> a < 2 powi (e0 + 1)"
  proof (cases "1 \<le> a")
    case True
    then have n: "1 \<le> \<lfloor>a\<rfloor>" by simp
    have f1: "of_int \<lfloor>a\<rfloor> \<le> a" and f2: "a < of_int \<lfloor>a\<rfloor> + 1" by linarith+
    from ilog2_powi[OF n] f1 f2
    have "2 powi ilog2 \<lfloor>a\<rfloor> \<le> a \<and> a < 2 powi (ilog2 \<lfloor>a\<rfloor> + 1)" by linarith
    then show ?thesis using True by (simp add: e0_def)
  next
    case False
    with assms have "1 < 1 / a" by simp
    then have n: "1 \<le> \<lceil>1 / a\<rceil> - 1" by (simp add: less_ceiling_iff)
    define k where "k = ilog2 (\<lceil>1 / a\<rceil> - 1)"
    from ilog2_powi[OF n] have lo: "(2::real) powi k \<le> of_int (\<lceil>1 / a\<rceil> - 1)"
      and hi: "of_int (\<lceil>1 / a\<rceil> - 1) + 1 \<le> (2::real) powi (k + 1)" by (simp_all add: k_def)
    have "real_of_int (\<lceil>1 / a\<rceil> - 1) < 1 / a" by linarith
    with lo have "2 powi k < 1 / a" by linarith
    moreover have "(0::real) < 2 powi k" by simp
    ultimately have up: "a < 1 / 2 powi k" using assms by (simp add: field_simps)
    have "1 / a \<le> real_of_int (\<lceil>1 / a\<rceil> - 1) + 1" by simp
    with hi have "1 / a \<le> 2 powi (k + 1)" by linarith
    moreover have "(0::real) < 2 powi (k + 1)" by simp
    ultimately have dn: "1 / 2 powi (k + 1) \<le> a" using assms by (simp add: field_simps)
    have "e0 = - (k + 1)" and "e0 + 1 = - k" using False by (simp_all add: e0_def k_def)
    then have "(2::real) powi e0 = 1 / 2 powi (k + 1)" and "(2::real) powi (e0 + 1) = 1 / 2 powi k"
      by (simp_all only: power_int_minus_divide)
    then show ?thesis using up dn by simp
  qed
  show "- 1022 \<le> f64_exponent a" by (simp add: e)
  show "a < 2 powi (f64_exponent a + 1)"
  proof -
    have "(2::real) powi (e0 + 1) \<le> 2 powi (max (- 1022) e0 + 1)"
      by (rule power_int_increasing) simp_all
    with raw show ?thesis by (simp only: e) linarith
  qed
  show "f64_exponent a = - 1022 \<or> 2 powi (f64_exponent a) \<le> a"
    using raw by (auto simp: e max_def)
qed

lemma f64_exponent_unique:
  assumes "0 < a" and "- 1022 \<le> e" and "a < 2 powi (e + 1)" and "e = - 1022 \<or> 2 powi e \<le> a"
  shows "f64_exponent a = e"
proof (rule ccontr)
  assume ne: "f64_exponent a \<noteq> e"
  note s = f64_exponent_spec[OF assms(1)]
  show False
  proof (cases "f64_exponent a < e")
    case True
    then have "(2::real) powi (f64_exponent a + 1) \<le> 2 powi e"
      by (intro power_int_increasing) simp_all
    moreover from True s(1) assms(4) have "2 powi e \<le> a" by auto
    ultimately show False using s(2) by linarith
  next
    case False
    with ne have gt: "e < f64_exponent a" by simp
    then have "(2::real) powi (e + 1) \<le> 2 powi (f64_exponent a)"
      by (intro power_int_increasing) simp_all
    moreover from gt assms(2) s(3) have "2 powi (f64_exponent a) \<le> a" by auto
    ultimately show False using assms(3) by linarith
  qed
qed

lemma round_even_of_int [simp]: "round_even (of_int m) = m"
  by (simp add: round_even_def)

lemma round_even_between: "\<lfloor>x\<rfloor> \<le> round_even x" "round_even x \<le> \<lceil>x\<rceil>"
proof -
  show "\<lfloor>x\<rfloor> \<le> round_even x" by (simp add: round_even_def Let_def)
  show "round_even x \<le> \<lceil>x\<rceil>"
  proof (cases "x = of_int \<lfloor>x\<rfloor>")
    case True
    then show ?thesis by (simp add: round_even_def Let_def)
  next
    case False
    then have "\<lceil>x\<rceil> = \<lfloor>x\<rfloor> + 1" by (simp add: ceiling_altdef)
    then show ?thesis by (simp add: round_even_def Let_def)
  qed
qed

lemma two_powi_shift: "(2::real) ^ n * 2 powi e = 2 powi (int n + e)"
  by (simp add: power_int_add)

lemma round_f64_FinI:
  assumes "x \<noteq> 0" and "f64_exponent \<bar>x\<bar> = e" and "x / 2 powi (e - 52) = of_int m"
    and "\<not> f64_overflow \<le> x" and "\<not> x \<le> - f64_overflow"
  shows "round_f64 x = Fin x"
proof -
  have "(2::real) powi (e - 52) \<noteq> 0" by simp
  with assms(3) have mq: "of_int m * 2 powi (e - 52) = x" by (simp add: field_simps)
  show ?thesis
    unfolding round_f64_def Let_def assms(2) assms(3) round_even_of_int mq
    using assms(1,4,5) by simp
qed

lemma round_f64_grid:
  assumes e: "- 1022 \<le> e" and m: "\<bar>m\<bar> \<le> 2 ^ 53" and norm: "e = - 1022 \<or> 2 ^ 52 \<le> \<bar>m\<bar>"
    and fin: "\<bar>of_int m * 2 powi (e - 52)\<bar> < f64_overflow"
  shows "round_f64 (of_int m * 2 powi (e - 52)) = Fin (of_int m * 2 powi (e - 52))"
proof (cases "m = 0")
  case True
  then show ?thesis by (simp add: round_f64_def)
next
  case False
  define q :: real where "q = 2 powi (e - 52)"
  define r :: real where "r = of_int m * q"
  have q: "0 < q" by (simp add: q_def)
  have r0: "r \<noteq> 0" using False q by (simp add: r_def)
  have absr: "\<bar>r\<bar> = of_int \<bar>m\<bar> * q" using q by (simp add: r_def abs_mult)
  have lo_eq: "(2::real) ^ 52 * q = 2 powi e" unfolding q_def two_powi_shift by simp
  have hi_eq: "(2::real) ^ 53 * q = 2 powi (e + 1)"
    unfolding q_def two_powi_shift by (simp add: add.commute)
  have no_over: "\<not> f64_overflow \<le> r" "\<not> r \<le> - f64_overflow"
    using fin unfolding r_def q_def by linarith+
  show ?thesis
  proof (cases "\<bar>m\<bar> < 2 ^ 53")
    case True
    then have "(of_int \<bar>m\<bar> :: real) < of_int (2 ^ 53)" by (simp only: of_int_less_iff)
    then have "(of_int \<bar>m\<bar> :: real) < 2 ^ 53" by simp
    then have up: "\<bar>r\<bar> < 2 powi (e + 1)" using q unfolding absr hi_eq[symmetric] by simp
    have dn: "e = - 1022 \<or> 2 powi e \<le> \<bar>r\<bar>"
    proof (cases "e = - 1022")
      case False
      with norm have "2 ^ 52 \<le> \<bar>m\<bar>" by simp
      then have "(of_int (2 ^ 52) :: real) \<le> of_int \<bar>m\<bar>" by (simp only: of_int_le_iff)
      then have "(2::real) ^ 52 \<le> of_int \<bar>m\<bar>" by simp
      then show ?thesis using q unfolding absr lo_eq[symmetric] by simp
    qed simp
    have ex: "f64_exponent \<bar>r\<bar> = e"
      using r0 e up dn by (intro f64_exponent_unique) simp_all
    have "r / 2 powi (e - 52) = of_int m" using q by (simp add: r_def q_def)
    from round_f64_FinI[OF r0 ex this no_over] show ?thesis by (simp add: r_def q_def)
  next
    case False
    with m have am: "\<bar>m\<bar> = 2 ^ 53" by simp
    then have "(of_int \<bar>m\<bar> :: real) = 2 ^ 53" by simp
    then have ar: "\<bar>r\<bar> = 2 powi (e + 1)" unfolding absr hi_eq[symmetric] by simp
    have "(2::real) powi (e + 1) < 2 powi (e + 1 + 1)"
      by (rule power_int_strict_increasing) simp_all
    then have ex: "f64_exponent \<bar>r\<bar> = e + 1"
      using r0 e ar by (intro f64_exponent_unique) simp_all
    have q2: "(2::real) powi (e + 1 - 52) = 2 * q"
      unfolding q_def using power_int_add_1'[of "2::real" "e - 52"] by (simp add: algebra_simps)
    from am have "m = 2 ^ 53 \<or> m = - (2 ^ 53)" by linarith
    then have "even m" by auto
    then obtain h where h: "m = 2 * h" by (auto elim: evenE)
    have "r / (2 * q) = of_int h" using q by (simp add: r_def h)
    then have "r / 2 powi (e + 1 - 52) = of_int h" by (simp only: q2)
    from round_f64_FinI[OF r0 ex this no_over] show ?thesis by (simp add: r_def q_def)
  qed
qed

lemma round_f64_idem:
  assumes "round_f64 x = Fin r"
  shows "round_f64 r = Fin r"
proof (cases "x = 0")
  case True
  with assms show ?thesis by (auto simp: round_f64_def)
next
  case False
  define e where "e = f64_exponent \<bar>x\<bar>"
  define q :: real where "q = 2 powi (e - 52)"
  define m where "m = round_even (x / q)"
  have q: "0 < q" by (simp add: q_def)
  have pos: "0 < \<bar>x\<bar>" using False by simp
  note s = f64_exponent_spec[OF pos, folded e_def]
  have lo_eq: "(2::real) ^ 52 * q = 2 powi e" unfolding q_def two_powi_shift by simp
  have hi_eq: "(2::real) ^ 53 * q = 2 powi (e + 1)"
    unfolding q_def two_powi_shift by (simp add: add.commute)
  from assms False have r: "r = of_int m * q" and fin: "\<not> f64_overflow \<le> of_int m * q" "\<not> of_int m * q \<le> - f64_overflow"
    unfolding round_f64_def Let_def e_def[symmetric] q_def[symmetric] m_def[symmetric]
    by (auto split: if_splits)
  have "\<bar>x\<bar> < 2 ^ 53 * q" using s(2) unfolding hi_eq .
  then have "\<bar>x / q\<bar> < 2 ^ 53" using q by (simp add: field_simps)
  then have "x / q \<le> 2 ^ 53" and "- (2 ^ 53) \<le> x / q" by linarith+
  then have b1: "x / q \<le> of_int (2 ^ 53)" and b2: "of_int (- (2 ^ 53)) \<le> x / q" by simp_all
  have "m \<le> \<lceil>x / q\<rceil>" "\<lfloor>x / q\<rfloor> \<le> m" unfolding m_def by (rule round_even_between)+
  moreover have "\<lceil>x / q\<rceil> \<le> 2 ^ 53" using b1 by (simp only: ceiling_le_iff)
  moreover have "- (2 ^ 53) \<le> \<lfloor>x / q\<rfloor>" using b2 by (simp only: le_floor_iff)
  ultimately have m: "\<bar>m\<bar> \<le> 2 ^ 53" by linarith
  have norm: "e = - 1022 \<or> 2 ^ 52 \<le> \<bar>m\<bar>"
  proof (cases "e = - 1022")
    case False
    with s(3) have "2 ^ 52 * q \<le> \<bar>x\<bar>" unfolding lo_eq by simp
    then have big: "2 ^ 52 \<le> \<bar>x / q\<bar>" using q by (simp add: field_simps)
    show ?thesis
    proof (cases "0 \<le> x / q")
      case True
      with big have "of_int (2 ^ 52) \<le> x / q" by simp
      then have "2 ^ 52 \<le> \<lfloor>x / q\<rfloor>" by (simp only: le_floor_iff)
      with \<open>\<lfloor>x / q\<rfloor> \<le> m\<close> show ?thesis by linarith
    next
      case False
      with big have "x / q \<le> of_int (- (2 ^ 52))" by simp
      then have "\<lceil>x / q\<rceil> \<le> - (2 ^ 52)" by (simp only: ceiling_le_iff)
      with \<open>m \<le> \<lceil>x / q\<rceil>\<close> show ?thesis by linarith
    qed
  qed simp
  have "\<bar>of_int m * 2 powi (e - 52)\<bar> < f64_overflow"
    using fin unfolding q_def by linarith
  from round_f64_grid[OF s(1) m norm this] show ?thesis by (simp add: r q_def)
qed

lemma tolerance_exact:
  assumes "round_f64 r = Fin r"
  shows "(\<bar>r\<bar> < 7378697629483821 / 2 ^ 66) = (\<bar>r\<bar> < 1 / 10000)"
proof
  assume "\<bar>r\<bar> < 1 / 10000"
  then show "\<bar>r\<bar> < 7378697629483821 / 2 ^ 66" by simp
next
  assume up: "\<bar>r\<bar> < 7378697629483821 / 2 ^ 66"
  show "\<bar>r\<bar> < 1 / 10000"
  proof (rule ccontr)
    assume "\<not> \<bar>r\<bar> < 1 / 10000"
    then have dn: "1 / 10000 \<le> \<bar>r\<bar>" by simp
    then have r0: "r \<noteq> 0" by auto
    have "f64_exponent \<bar>r\<bar> = - 14"
      using up dn by (intro f64_exponent_unique) simp_all
    with assms r0 have "of_int (round_even (r / 2 powi (- 66))) * 2 powi (- 66) = r"
      by (simp add: round_f64_def Let_def split: if_splits)
    then obtain m :: int where "r = of_int m * 2 powi (- 66)" by metis
    then have "\<bar>r\<bar> = of_int \<bar>m\<bar> / 2 ^ 66" by (simp add: abs_mult power_int_minus_divide)
    with up dn have "(of_int \<bar>m\<bar> :: real) < 7378697629483821" "(7378697629483820::real) < of_int \<bar>m\<bar>"
      by (simp_all add: field_simps)
    then have "\<bar>m\<bar> < 7378697629483821" "7378697629483820 < \<bar>m\<bar>" by linarith+
    then show False by linarith
  qed
qed


lemma spacing_exact:
  assumes "round_f64 r = Fin r"
  shows "(r < 3602879701896397 / 2 ^ 56) = (r < 1 / 20)"
proof
  assume "r < 1 / 20"
  then show "r < 3602879701896397 / 2 ^ 56" by simp
next
  assume up: "r < 3602879701896397 / 2 ^ 56"
  show "r < 1 / 20"
  proof (rule ccontr)
    assume "\<not> r < 1 / 20"
    then have dn: "1 / 20 \<le> r" by simp
    then have r0: "r \<noteq> 0" and ar: "\<bar>r\<bar> = r" by auto
    have "f64_exponent \<bar>r\<bar> = - 5"
      unfolding ar using up dn by (intro f64_exponent_unique) simp_all
    with assms r0 have "of_int (round_even (r / 2 powi (- 57))) * 2 powi (- 57) = r"
      by (simp add: round_f64_def Let_def split: if_splits)
    then obtain m :: int where "r = of_int m * 2 powi (- 57)" by metis
    then have "r = of_int m / 2 ^ 57" by (simp add: power_int_minus_divide)
    with up dn have "(of_int m :: real) < 7205759403792794" "(7205759403792793::real) < of_int m"
      by (simp_all add: field_simps)
    then have "m < 7205759403792794" "7205759403792793 < m" by linarith+
    then show False by linarith
  qed
qed

lemma f64_sub_is_float64: "is_float64 (f64_sub x y)"
proof (cases x)
  case (Fin a)
  show ?thesis
  proof (cases y)
    case (Fin b)
    show ?thesis
    proof (cases "round_f64 (a - b)")
      case (Fin r)
      with round_f64_idem[OF Fin] show ?thesis
        using \<open>x = Fin a\<close> \<open>y = Fin b\<close> by (simp add: is_float64_def)
    qed (simp_all add: \<open>x = Fin a\<close> \<open>y = Fin b\<close> is_float64_def)
  qed (simp_all add: Fin is_float64_def)
qed (cases y; simp add: is_float64_def)+

section \<open>Values of the constants\<close>

lemmas round_f64_eval =
  round_f64_def f64_overflow_def f64_exponent_def round_even_def ilog2.simps Let_def

lemma azimuthMin_val: "azimuthMin = Fin (- 180)"
  unfolding azimuthMin_def by (simp add: round_f64_eval)

lemma azimuthMax_val: "azimuthMax = Fin 360"
  unfolding azimuthMax_def by (simp add: round_f64_eval)

lemma azimuthSpeedMax_val: "azimuthSpeedMax = Fin 3"
  unfolding azimuthSpeedMax_def by (simp add: round_f64_eval)

lemma elevationMin_val: "elevationMin = Fin 0"
  unfolding elevationMin_def by (simp add: round_f64_eval)

lemma elevationMax_val: "elevationMax = Fin 180"
  unfolding elevationMax_def by (simp add: round_f64_eval)

lemma elevationSpeedMax_val: "elevationSpeedMax = Fin (3 / 2)"
  unfolding elevationSpeedMax_def by (simp add: round_f64_eval)


lemma speedTol_val: "speedTol = Fin (7378697629483821 / 2 ^ 66)"
  unfolding speedTol_def by (simp add: round_f64_eval)

lemmas envelope_vals =
  azimuthMin_val azimuthMax_val azimuthSpeedMax_val
  elevationMin_val elevationMax_val elevationSpeedMax_val

section \<open>The validator's decision\<close>

lemma position_branch:
  "(f64_lt x (Fin lo) \<or> f64_gt x (Fin hi)) = (x \<noteq> NaN \<and> \<not> in_range lo hi x)"
  by (cases x) (auto simp: f64_gt_def)

lemma speed_branch:
  "0 \<le> hi \<Longrightarrow> f64_gt (f64_abs x) (Fin hi) = (x \<noteq> NaN \<and> \<not> in_range (- hi) hi x)"
  by (cases x) (auto simp: f64_gt_def)

text \<open>
  What \<^verbatim>\<open>checkAzEl\<close> accepts: each argument is inside its range, or is a NaN.
\<close>

lemma checkAzEl_nil_iff:
  "fst (checkAzEl az el vaz vel lg) = None \<longleftrightarrow>
     (az = NaN \<or> in_range (- 180) 360 az) \<and> (el = NaN \<or> in_range 0 180 el) \<and>
     (vaz = NaN \<or> in_range (- 3) 3 vaz) \<and> (vel = NaN \<or> in_range (- (3 / 2)) (3 / 2) vel)"
  unfolding checkAzEl_def envelope_vals reject_def
  by (simp add: position_branch speed_branch)

lemma checkAzEl_log_irrelevant:
  "fst (checkAzEl az el vaz vel lg) = fst (checkAzEl az el vaz vel lg')"
  by (simp add: checkAzEl_def reject_def)

lemma checkAzEl_log:
  "snd (checkAzEl az el vaz vel lg) =
     (case fst (checkAzEl az el vaz vel lg) of None \<Rightarrow> lg | Some e \<Rightarrow> lg @ [e])"
  by (simp add: checkAzEl_def reject_def)

text \<open>
  Which error a rejected input gets: the first of the four checks that fails, with the
  quantity, the value and the range it was held against.
\<close>

lemma checkAzEl_error:
  "fst (checkAzEl az el vaz vel lg) =
     (if az \<noteq> NaN \<and> \<not> in_range (- 180) 360 az then
        Some (OutOfRange CommandedAzimuth az (Fin (- 180)) (Fin 360))
      else if el \<noteq> NaN \<and> \<not> in_range 0 180 el then
        Some (OutOfRange CommandedElevation el (Fin 0) (Fin 180))
      else if vaz \<noteq> NaN \<and> \<not> in_range (- 3) 3 vaz then
        Some (OutOfRange CommandedAzimuthVel vaz (Fin (- 3)) (Fin 3))
      else if vel \<noteq> NaN \<and> \<not> in_range (- (3 / 2)) (3 / 2) vel then
        Some (OutOfRange CommandedElevationVel vel (Fin (- (3 / 2))) (Fin (3 / 2)))
      else None)"
  unfolding checkAzEl_def envelope_vals reject_def
  by (simp add: position_branch speed_branch)

section \<open>C1: the kinematic validator\<close>

text \<open>
  C1. The claim: \<^verbatim>\<open>checkAzEl\<close> returns nil exactly when the azimuth is in [-180, 360], the
  elevation in [0, 180], the azimuth speed at most 3 and the elevation speed at most 1.5
  in magnitude, and returns an out-of-range error for every other input. The code does so
  for every input without a NaN (\<open>checkAzEl_nil_iff\<close>, \<open>checkAzEl_error\<close>); the exact
  bounds pass and the next float64 beyond each bound is rejected. A NaN is outside every
  range, and the code accepts it in each of the four places: every comparison with a NaN
  is false, so no branch rejects it.
\<close>

theorem checkAzEl_accepts_NaN:
  "\<not> in_range (- 180) 360 NaN \<and>
   checkAzEl NaN (Fin 0) (Fin 0) (Fin 0) lg = (None, lg) \<and>
   checkAzEl (Fin 0) NaN (Fin 0) (Fin 0) lg = (None, lg) \<and>
   checkAzEl (Fin 0) (Fin 0) NaN (Fin 0) lg = (None, lg) \<and>
   checkAzEl (Fin 0) (Fin 0) (Fin 0) NaN lg = (None, lg)"
  unfolding checkAzEl_def envelope_vals
  by (simp add: f64_gt_def)

text \<open>
  The boundary values of C1, for inputs that are numbers: the bounds themselves pass, and the
  float64 next to each bound on the outside is rejected with the error of its quantity.
  (The spacing of float64 is \<open>2\<^sup>-\<^sup>4\<^sup>5\<close> below 180 and 256, \<open>2\<^sup>-\<^sup>4\<^sup>4\<close> above 256,
  \<open>2\<^sup>-\<^sup>5\<^sup>1\<close> above 3, \<open>2\<^sup>-\<^sup>5\<^sup>2\<close> above 1.5, and \<open>2\<^sup>-\<^sup>1\<^sup>0\<^sup>7\<^sup>4\<close> below 0.)
\<close>

lemma checkAzEl_boundaries:
  "fst (checkAzEl (Fin (- 180)) (Fin 0) (Fin (- 3)) (Fin (- (3 / 2))) lg) = None"
  "fst (checkAzEl (Fin 360) (Fin 180) (Fin 3) (Fin (3 / 2)) lg) = None"
  "fst (checkAzEl (Fin (- 180 - 1 / 2 ^ 45)) (Fin 0) (Fin 0) (Fin 0) lg) =
     Some (OutOfRange CommandedAzimuth (Fin (- 180 - 1 / 2 ^ 45)) (Fin (- 180)) (Fin 360))"
  "fst (checkAzEl (Fin (360 + 1 / 2 ^ 44)) (Fin 0) (Fin 0) (Fin 0) lg) =
     Some (OutOfRange CommandedAzimuth (Fin (360 + 1 / 2 ^ 44)) (Fin (- 180)) (Fin 360))"
  "fst (checkAzEl (Fin 0) (Fin (- (1 / 2 ^ 1074))) (Fin 0) (Fin 0) lg) =
     Some (OutOfRange CommandedElevation (Fin (- (1 / 2 ^ 1074))) (Fin 0) (Fin 180))"
  "fst (checkAzEl (Fin 0) (Fin (180 + 1 / 2 ^ 45)) (Fin 0) (Fin 0) lg) =
     Some (OutOfRange CommandedElevation (Fin (180 + 1 / 2 ^ 45)) (Fin 0) (Fin 180))"
  "fst (checkAzEl (Fin 0) (Fin 0) (Fin (3 + 1 / 2 ^ 51)) (Fin 0) lg) =
     Some (OutOfRange CommandedAzimuthVel (Fin (3 + 1 / 2 ^ 51)) (Fin (- 3)) (Fin 3))"
  "fst (checkAzEl (Fin 0) (Fin 0) (Fin 0) (Fin (- (3 / 2) - 1 / 2 ^ 52)) lg) =
     Some (OutOfRange CommandedElevationVel (Fin (- (3 / 2) - 1 / 2 ^ 52))
       (Fin (- (3 / 2))) (Fin (3 / 2)))"
  by (simp_all add: checkAzEl_error)

section \<open>C2: the completion predicate of Point\<close>

lemma lt_tolerance:
  assumes "is_float64 x"
  shows "f64_lt (f64_abs x) (Fin (7378697629483821 / 2 ^ 66)) = below (1 / 10000) x"
proof (cases x)
  case (Fin r)
  with assms have "round_f64 r = Fin r" by (simp add: is_float64_def)
  from tolerance_exact[OF this] show ?thesis
    unfolding Fin below_def by (simp only: f64_abs.simps f64_lt.simps f64.case)
qed (simp_all add: below_def)


lemma lt_speedTol: "is_float64 x \<Longrightarrow> f64_lt (f64_abs x) speedTol = below (1 / 10000) x"
  unfolding speedTol_val by (rule lt_tolerance)


lemma round_f64_zero [simp]: "round_f64 0 = Fin 0"
  by (simp add: round_f64_def)


section \<open>C3: the completion predicate of the pattern start\<close>

text \<open>
  C3. \<^verbatim>\<open>startPattern\<close> always returns a predicate, and on every snapshot the predicate
  answers with a nil error and with done exactly when the count of free stack positions is
  9999 and both velocities are below \<open>10\<^sup>-\<^sup>4\<close> in magnitude. A count of 9998 or of 10000
  gives done = false.
\<close>

theorem startPattern_isDone_iff:
  assumes "is_float64 (AzimuthCurrentVelocity rec)"
    and "is_float64 (ElevationCurrentVelocity rec)"
  shows "\<exists>isDone. IsDone (startPattern tel pattern) = Some isDone \<and>
     isDone rec =
       (QtyOfFreeProgramTrackStackPositions rec = 9999 \<and>
        below (1 / 10000) (AzimuthCurrentVelocity rec) \<and>
        below (1 / 10000) (ElevationCurrentVelocity rec),
        None) \<and>
     (QtyOfFreeProgramTrackStackPositions rec = 9998 \<or>
      QtyOfFreeProgramTrackStackPositions rec = 10000 \<longrightarrow> isDone rec = (False, None))"
  using assms
  by (auto simp: startPattern_def startPattern_isDone_def Let_def
      maxFreeProgramTrackStack_def lt_speedTol)

theorem startPattern_isDone_iff_witness:
  "is_float64 (Fin 0) \<and>
   (\<exists>isDone.
      IsDone (startPattern (facade None) (replay ''Horizon'' [])) = Some isDone \<and>
      isDone \<lparr>AzimuthMode = 3 :: nat, ElevationMode = 3 :: nat,
        AzimuthCurrentPosition = Fin 10, AzimuthCommandedPosition = Fin 10,
        ElevationCurrentPosition = Fin 20, ElevationCommandedPosition = Fin 20,
        AzimuthCurrentVelocity = Fin 0, ElevationCurrentVelocity = Fin 0,
        QtyOfFreeProgramTrackStackPositions = 9999\<rparr> = (True, None)) \<and>
   (\<exists>isDone.
      IsDone (startPattern (facade None) (replay ''Horizon'' [])) = Some isDone \<and>
      isDone \<lparr>AzimuthMode = 3 :: nat, ElevationMode = 3 :: nat,
        AzimuthCurrentPosition = Fin 10, AzimuthCommandedPosition = Fin 10,
        ElevationCurrentPosition = Fin 20, ElevationCommandedPosition = Fin 20,
        AzimuthCurrentVelocity = Fin 0, ElevationCurrentVelocity = Fin 0,
        QtyOfFreeProgramTrackStackPositions = 9998\<rparr> = (False, None))"
  using startPattern_isDone_iff [of
      "\<lparr>AzimuthMode = 3 :: nat, ElevationMode = 3 :: nat,
        AzimuthCurrentPosition = Fin 10, AzimuthCommandedPosition = Fin 10,
        ElevationCurrentPosition = Fin 20, ElevationCommandedPosition = Fin 20,
        AzimuthCurrentVelocity = Fin 0, ElevationCurrentVelocity = Fin 0,
        QtyOfFreeProgramTrackStackPositions = 9999\<rparr>"
      "facade None" "replay ''Horizon'' []"]
    startPattern_isDone_iff [of
      "\<lparr>AzimuthMode = 3 :: nat, ElevationMode = 3 :: nat,
        AzimuthCurrentPosition = Fin 10, AzimuthCommandedPosition = Fin 10,
        ElevationCurrentPosition = Fin 20, ElevationCommandedPosition = Fin 20,
        AzimuthCurrentVelocity = Fin 0, ElevationCurrentVelocity = Fin 0,
        QtyOfFreeProgramTrackStackPositions = 9998\<rparr>"
      "facade None" "replay ''Horizon'' []"]
  by (simp add: is_float64_def below_def)

section \<open>C4: a path without points\<close>

text \<open>
  C4, as the code has it. \<^verbatim>\<open>pathCmd.Check\<close> fails on every command with an empty point
  list. The error is the "no points" error when the coordinate system is "Horizon" or
  "ICRS"; for any other coordinate system it is the "bad coordinate system" error, since
  the coordinate system is looked at first.
\<close>

theorem pathCmd_Check_no_points:
  assumes "Points cmd = []"
  shows "fst (pathCmd_Check ext cmd lg) =
     Some (if pathCmd.Coordsys cmd = ''Horizon'' \<or> pathCmd.Coordsys cmd = ''ICRS''
           then NoPointsInPath else BadCoordinateSystem (pathCmd.Coordsys cmd))"
  using assms by (simp add: pathCmd_Check_def)

theorem pathCmd_Check_no_points_witness:
  "Points \<lparr>Coordsys = ''ICRS'', Points = []\<rparr> = [] \<and>
   fst (pathCmd_Check bench \<lparr>Coordsys = ''ICRS'', Points = []\<rparr> []) = Some NoPointsInPath"
  using pathCmd_Check_no_points [of "\<lparr>Coordsys = ''ICRS'', Points = []\<rparr>" bench "[]"]
  by simp

text \<open>
  The claim as it stands says "no points" for every coordinate system. With the
  coordinate system "Galactic" the error is another one.
\<close>

theorem pathCmd_Check_no_points_counterexample:
  "Points \<lparr>Coordsys = ''Galactic'', Points = []\<rparr> = [] \<and>
   fst (pathCmd_Check bench \<lparr>Coordsys = ''Galactic'', Points = []\<rparr> []) =
     Some (BadCoordinateSystem ''Galactic'') \<and>
   fst (pathCmd_Check bench \<lparr>Coordsys = ''Galactic'', Points = []\<rparr> []) \<noteq>
     Some NoPointsInPath"
  by (simp add: pathCmd_Check_def)

section \<open>C5: the check of Track\<close>

text \<open>
  C5. \<^verbatim>\<open>trackCmd.Check\<close> returns an error exactly when the coordinate system is neither
  "Horizon" nor "ICRS", or the stop time is less than the start time. "Galactic" fails,
  "Horizon" with the stop before the start fails, and "ICRS" with equal times passes.
\<close>

theorem trackCmd_Check_error_iff:
  "(trackCmd_Check cmd \<noteq> None) =
     ((trackCmd.Coordsys cmd \<noteq> ''Horizon'' \<and> trackCmd.Coordsys cmd \<noteq> ''ICRS'') \<or>
      f64_lt (StopTime cmd) (trackCmd.StartTime cmd))"
  by (simp add: trackCmd_Check_def)

theorem trackCmd_Check_error_iff_witness:
  "trackCmd_Check \<lparr>StartTime = Fin 100, StopTime = Fin 200, RA = Fin 0, Dec = Fin 0,
      Coordsys = ''Galactic''\<rparr> \<noteq> None \<and>
   trackCmd_Check \<lparr>StartTime = Fin 200, StopTime = Fin 100, RA = Fin 0, Dec = Fin 0,
      Coordsys = ''Horizon''\<rparr> \<noteq> None \<and>
   trackCmd_Check \<lparr>StartTime = Fin 100, StopTime = Fin 100, RA = Fin 0, Dec = Fin 0,
      Coordsys = ''ICRS''\<rparr> = None"
  using
    trackCmd_Check_error_iff [of "\<lparr>StartTime = Fin 100, StopTime = Fin 200, RA = Fin 0,
      Dec = Fin 0, Coordsys = ''Galactic''\<rparr>"]
    trackCmd_Check_error_iff [of "\<lparr>StartTime = Fin 200, StopTime = Fin 100, RA = Fin 0,
      Dec = Fin 0, Coordsys = ''Horizon''\<rparr>"]
    trackCmd_Check_error_iff [of "\<lparr>StartTime = Fin 100, StopTime = Fin 100, RA = Fin 0,
      Dec = Fin 0, Coordsys = ''ICRS''\<rparr>"]
  by simp

text \<open>The two errors, and equal times of any value.\<close>

lemma trackCmd_Check_cases:
  "trackCmd.Coordsys cmd \<noteq> ''Horizon'' \<Longrightarrow> trackCmd.Coordsys cmd \<noteq> ''ICRS'' \<Longrightarrow>
     trackCmd_Check cmd = Some (BadCoordinateSystem (trackCmd.Coordsys cmd))"
  "trackCmd.Coordsys cmd = ''Horizon'' \<or> trackCmd.Coordsys cmd = ''ICRS'' \<Longrightarrow>
     f64_lt (StopTime cmd) (trackCmd.StartTime cmd) \<Longrightarrow>
     trackCmd_Check cmd = Some (BadTimes (trackCmd.StartTime cmd) (StopTime cmd))"
  by (auto simp: trackCmd_Check_def)

lemma f64_lt_irrefl [simp]: "\<not> f64_lt x x"
  by (cases x) simp_all

lemma trackCmd_Check_equal_times:
  "trackCmd_Check \<lparr>StartTime = t, StopTime = t, RA = ra, Dec = dec, Coordsys = ''ICRS''\<rparr> = None"
  by (simp add: trackCmd_Check_def)

section \<open>The two loops of the Path check\<close>

lemma spacing_val: "round_f64 (5 / 100) = Fin (3602879701896397 / 2 ^ 56)"
  by (simp add: round_f64_eval)

lemma spacing_val_reduced: "round_f64 (1 / 20) = Fin (3602879701896397 / 2 ^ 56)"
  using spacing_val by simp

lemma round_f64_one: "round_f64 1 = Fin 1"
  by (simp add: round_f64_eval)

lemma lt_spacing:
  assumes "is_float64 d"
  shows "f64_lt d (round_f64 (5 / 100)) = under (1 / 20) d"
proof (cases d)
  case (Fin r)
  with assms have "round_f64 r = Fin r" by (simp add: is_float64_def)
  from spacing_exact[OF this] show ?thesis
    unfolding Fin spacing_val under_def by (simp only: f64_lt.simps f64.case)
qed (simp_all add: spacing_val_reduced under_def)

lemma lt_spacing_reduced:
  "is_float64 d \<Longrightarrow> f64_lt d (round_f64 (1 / 20)) = under (1 / 20) d"
  using lt_spacing by simp

text \<open>The loop over the times fails exactly when some time is too close to the one before it.\<close>

lemma times_separated_iff:
  "times_separated pts =
     (\<forall>i < length pts - 1.
        \<not> f64_lt (f64_sub (fst (pts ! Suc i)) (fst (pts ! i))) (round_f64 (5 / 100)))"
proof (induction pts rule: times_separated.induct)
  case (1 p q ps)
  have "(\<forall>i < Suc (length ps).
           \<not> f64_lt (f64_sub (fst ((p # q # ps) ! Suc i)) (fst ((p # q # ps) ! i)))
               (round_f64 (5 / 100))) =
        (\<not> f64_lt (f64_sub (fst q) (fst p)) (round_f64 (5 / 100)) \<and>
         (\<forall>i < length ps.
           \<not> f64_lt (f64_sub (fst ((q # ps) ! Suc i)) (fst ((q # ps) ! i)))
               (round_f64 (5 / 100))))"
    by (simp add: All_less_Suc2)
  with 1 show ?case by auto
qed simp_all

lemma times_separated_map:
  assumes "map fst ps = map fst qs"
  shows "times_separated ps = times_separated qs"
proof -
  from assms have len: "length ps = length qs" by (rule map_eq_imp_length_eq)
  have "fst (ps ! i) = fst (qs ! i)" if "i < length ps" for i
    using that assms len by (metis nth_map)
  then show ?thesis unfolding times_separated_iff len[symmetric]
    by (metis (no_types, lifting) Suc_lessD less_diff_conv add.commute plus_1_eq_Suc)
qed

text \<open>
  The loop over the coordinates returns nil, an error of the pattern, or the error of a
  point; what it returns does not depend on the log, and it adds to the log the error of
  the point it rejects and nothing else.
\<close>

lemma check_coordinates_kind:
  "fst (check_coordinates P n i it lg) = None \<or>
   (\<exists>s. fst (check_coordinates P n i it lg) = Some (Foreign s)) \<or>
   (\<exists>j e. fst (check_coordinates P n i it lg) = Some (PointError j e))"
  by (induction n arbitrary: i it lg) (auto split: sum.splits prod.splits option.splits)


lemma verdict_checkAzEl:
  "fst (checkAzEl (AzPosition pt) (ElPosition pt) (AzVelocity pt) (ElVelocity pt) lg) = verdict pt"
  unfolding verdict_def by (rule checkAzEl_log_irrelevant)


text \<open>The loop sees of a pattern only what the pattern shows in the rounds the loop runs.\<close>

lemma check_coordinates_cong:
  "produced P n it = produced P' n it' \<Longrightarrow>
   check_coordinates P n i it lg = check_coordinates P' n i it' lg"
  by (induction n arbitrary: i it it' lg)
    (auto split: sum.splits prod.splits option.splits if_splits)

lemma produced_ConsD:
  "produced P n it = Produced p # os \<Longrightarrow>
   \<exists>m it'. n = Suc m \<and> \<not> Done P it \<and> Next P it = Inr (p, it') \<and> produced P m it' = os"
  by (cases n) (auto split: if_splits sum.splits prod.splits)

lemma check_coordinates_reports:
  assumes "produced P n it = map Produced pts @ Produced pt # rest"
    and "\<forall>p \<in> set pts. verdict p = None" and "verdict pt = Some e"
  shows "fst (check_coordinates P n i it lg) = Some (PointError (i + length pts) e)"
  using assms
proof (induction pts arbitrary: n i it lg)
  case Nil
  then have "produced P n it = Produced pt # rest" by simp
  from produced_ConsD[OF this] obtain m it' where
    "n = Suc m" "\<not> Done P it" "Next P it = Inr (pt, it')" by blast
  moreover from Nil.prems(3) verdict_checkAzEl[of pt lg]
  obtain lg' where "checkAzEl (AzPosition pt) (ElPosition pt) (AzVelocity pt) (ElVelocity pt) lg
      = (Some e, lg')" by (metis prod.collapse)
  ultimately show ?case by simp
next
  case (Cons p ps)
  then have "produced P n it = Produced p # (map Produced ps @ Produced pt # rest)" by simp
  from produced_ConsD[OF this] obtain m it' where
    step: "n = Suc m" "\<not> Done P it" "Next P it = Inr (p, it')"
    and tail: "produced P m it' = map Produced ps @ Produced pt # rest" by blast
  from Cons.prems(2) have "verdict p = None" and ps: "\<forall>p \<in> set ps. verdict p = None" by simp_all
  with verdict_checkAzEl[of p lg]
  obtain lg' where ok: "checkAzEl (AzPosition p) (ElPosition p) (AzVelocity p) (ElVelocity p) lg
      = (None, lg')" by (metis prod.collapse)
  from Cons.IH[OF tail ps Cons.prems(3), of "Suc i" lg'] step ok show ?case by simp
qed

lemma check_coordinates_passes:
  "\<forall>out \<in> set (produced P n it). out = Exhausted \<or> (\<exists>p. out = Produced p \<and> verdict p = None)
   \<Longrightarrow> check_coordinates P n i it lg = (None, lg)"
proof (induction n arbitrary: i it lg)
  case (Suc n)
  show ?case
  proof (cases "Done P it")
    case False
    show ?thesis
    proof (cases "Next P it")
      case (Inl err)
      with False Suc.prems show ?thesis by simp
    next
      case (Inr step)
      obtain pt it' where step: "step = (pt, it')" by (cases step)
      from Suc.prems False Inr step have v: "verdict pt = None"
        and rest: "\<forall>out \<in> set (produced P n it').
          out = Exhausted \<or> (\<exists>p. out = Produced p \<and> verdict p = None)" by simp_all
      from v verdict_checkAzEl[of pt lg] checkAzEl_log[of "AzPosition pt" "ElPosition pt"
          "AzVelocity pt" "ElVelocity pt" lg]
      have "checkAzEl (AzPosition pt) (ElPosition pt) (AzVelocity pt) (ElVelocity pt) lg
          = (None, lg)" by (simp add: prod_eq_iff)
      with False Inr step Suc.IH[OF rest] show ?thesis by simp
    qed
  qed simp
qed simp

text \<open>The producer \<open>replay\<close> and the points of \<open>ramp\<close>.\<close>

lemma replay_simps [simp]:
  "Iterator (replay cs ps) = ps"
  "Done (replay cs ps) it = (it = [])"
  "Next (replay cs ps) (p # rest) = Inr (point_transfer p, rest)"
  by (simp_all add: replay_def)

lemma produced_replay:
  "produced (replay cs ps) n it =
     map (\<lambda>p. Produced (point_transfer p)) (take n it) @ (if length it < n then [Exhausted] else [])"
proof (induction n arbitrary: it)
  case (Suc n)
  then show ?case by (cases it) simp_all
qed simp

lemma length_ramp [simp]: "length (ramp n) = n"
  by (simp add: ramp_def)

lemma fst_nth_ramp:
  "i \<le> n \<Longrightarrow> fst ((ramp n @ [(Fin (real n), a, b, c, d)]) ! i) = Fin (real i)"
  by (cases "i = n") (simp_all add: ramp_def nth_append)

lemma times_separated_ramp: "times_separated (ramp n @ [(Fin (real n), a, b, c, d)])"
  unfolding times_separated_iff
proof (intro allI impI)
  fix i
  assume "i < length (ramp n @ [(Fin (real n), a, b, c, d)]) - 1"
  then have i: "i \<le> n" "Suc i \<le> n" by simp_all
  have "real (Suc i) - real i = 1" by simp
  then have "f64_sub (Fin (real (Suc i))) (Fin (real i)) = Fin 1"
    by (simp only: f64_sub.simps round_f64_one)
  then show "\<not> f64_lt (f64_sub (fst ((ramp n @ [(Fin (real n), a, b, c, d)]) ! Suc i))
      (fst ((ramp n @ [(Fin (real n), a, b, c, d)]) ! i))) (round_f64 (5 / 100))"
    by (simp only: fst_nth_ramp[OF i(1)] fst_nth_ramp[OF i(2)] spacing_val) simp
qed

lemma verdict_at_rest: "verdict (point_transfer (t, Fin 0, Fin 0, Fin 0, Fin 0)) = None"
  by (simp add: point_transfer_def verdict_def checkAzEl_def envelope_vals f64_gt_def)

lemma verdict_400:
  "verdict (point_transfer (t, Fin 400, Fin 0, Fin 0, Fin 0)) =
     Some (OutOfRange CommandedAzimuth (Fin 400) (Fin (- 180)) (Fin 360))"
  by (simp add: point_transfer_def verdict_def checkAzEl_error)

lemma pathCmd_Check_ramp:
  "pathCmd_Check bench
     \<lparr>Coordsys = ''Horizon'', Points = ramp 100 @ [(Fin (real 100), a, b, c, d)]\<rparr> lg = (None, lg)"
proof -
  have "check_coordinates (replay ''Horizon'' (ramp 100 @ [(Fin (real 100), a, b, c, d)]))
      100 0 (ramp 100 @ [(Fin (real 100), a, b, c, d)]) lg = (None, lg)"
    by (rule check_coordinates_passes) (auto simp: produced_replay ramp_def verdict_at_rest)
  then show ?thesis
    using times_separated_ramp[of 100 a b c d]
    by (simp add: pathCmd_Check_def bench_def)
qed

lemma pathCmd_Check_at_rest:
  assumes "times_separated [(t0, Fin 0, Fin 0, Fin 0, Fin 0), (t1, Fin 0, Fin 0, Fin 0, Fin 0)]"
  shows "pathCmd_Check bench \<lparr>Coordsys = ''Horizon'',
      Points = [(t0, Fin 0, Fin 0, Fin 0, Fin 0), (t1, Fin 0, Fin 0, Fin 0, Fin 0)]\<rparr> lg
    = (None, lg)"
proof -
  have "check_coordinates
      (replay ''Horizon'' [(t0, Fin 0, Fin 0, Fin 0, Fin 0), (t1, Fin 0, Fin 0, Fin 0, Fin 0)])
      100 0 [(t0, Fin 0, Fin 0, Fin 0, Fin 0), (t1, Fin 0, Fin 0, Fin 0, Fin 0)] lg = (None, lg)"
    by (rule check_coordinates_passes) (auto simp: produced_replay verdict_at_rest)
  with assms show ?thesis by (simp add: pathCmd_Check_def bench_def)
qed

section \<open>C6: the spacing of the times\<close>

text \<open>
  C6, as the code has it. For a Path command with a recognized coordinate system and at
  least one point, \<^verbatim>\<open>Check\<close> fails with the spacing error exactly when, for two
  consecutive points, the float64 difference of the later time and the earlier time is
  less than 0.05. The difference is the one the code computes, rounded to float64.
  Points at the times 0 and 0.0499 fail; points at the times 0 and 0.05 pass.
\<close>

theorem pathCmd_Check_spacing:
  assumes "pathCmd.Coordsys cmd = ''Horizon'' \<or> pathCmd.Coordsys cmd = ''ICRS''"
    and "Points cmd \<noteq> []"
  shows "(fst (pathCmd_Check ext cmd lg) = Some PointsTooClose) =
     (\<exists>i < length (Points cmd) - 1.
        under (1 / 20) (f64_sub (fst (Points cmd ! Suc i)) (fst (Points cmd ! i))))"
proof (cases "times_separated (Points cmd)")
  case True
  define P where "P = NewPathScanPattern ext (pathCmd.Coordsys cmd) (Points cmd)"
  from True assms have "pathCmd_Check ext cmd lg = check_coordinates P 100 0 (Iterator P) lg"
    by (auto simp: pathCmd_Check_def P_def Let_def)
  with check_coordinates_kind[of P 100 0 "Iterator P" lg]
  have "fst (pathCmd_Check ext cmd lg) \<noteq> Some PointsTooClose" by auto
  moreover from True have "\<not> (\<exists>i < length (Points cmd) - 1.
        under (1 / 20) (f64_sub (fst (Points cmd ! Suc i)) (fst (Points cmd ! i))))"
    by (simp add: times_separated_iff lt_spacing_reduced f64_sub_is_float64)
  ultimately show ?thesis by simp
next
  case False
  with assms have "fst (pathCmd_Check ext cmd lg) = Some PointsTooClose"
    by (auto simp: pathCmd_Check_def)
  moreover from False have "\<exists>i < length (Points cmd) - 1.
        under (1 / 20) (f64_sub (fst (Points cmd ! Suc i)) (fst (Points cmd ! i)))"
    by (simp add: times_separated_iff lt_spacing_reduced f64_sub_is_float64)
  ultimately show ?thesis by simp
qed

theorem pathCmd_Check_spacing_witness:
  "fst (pathCmd_Check bench \<lparr>Coordsys = ''Horizon'',
      Points = [(Fin 0, Fin 0, Fin 0, Fin 0, Fin 0),
                (round_f64 (499 / 10000), Fin 0, Fin 0, Fin 0, Fin 0)]\<rparr> [])
     = Some PointsTooClose \<and>
   fst (pathCmd_Check bench \<lparr>Coordsys = ''Horizon'',
      Points = [(Fin 0, Fin 0, Fin 0, Fin 0, Fin 0),
                (round_f64 (1 / 20), Fin 0, Fin 0, Fin 0, Fin 0)]\<rparr> [])
     = None"
proof -
  have "times_separated [(Fin 0, Fin 0, Fin 0, Fin 0, Fin 0),
      (round_f64 (1 / 20), Fin 0, Fin 0, Fin 0, Fin 0)]"
    by (simp add: round_f64_eval)
  from pathCmd_Check_at_rest[OF this, of "[]"]
  have pass: "fst (pathCmd_Check bench \<lparr>Coordsys = ''Horizon'',
      Points = [(Fin 0, Fin 0, Fin 0, Fin 0, Fin 0),
                (round_f64 (1 / 20), Fin 0, Fin 0, Fin 0, Fin 0)]\<rparr> []) = None" by simp
  have fail: "fst (pathCmd_Check bench \<lparr>Coordsys = ''Horizon'',
      Points = [(Fin 0, Fin 0, Fin 0, Fin 0, Fin 0),
                (round_f64 (499 / 10000), Fin 0, Fin 0, Fin 0, Fin 0)]\<rparr> [])
     = Some PointsTooClose"
    using pathCmd_Check_spacing [of "\<lparr>Coordsys = ''Horizon'',
      Points = [(Fin 0, Fin 0, Fin 0, Fin 0, Fin 0),
                (round_f64 (499 / 10000), Fin 0, Fin 0, Fin 0, Fin 0)]\<rparr>" bench "[]"]
    by (simp add: under_def round_f64_eval)
  from fail pass show ?thesis by simp
qed

text \<open>
  The claim as it stands says that points at the times \<open>t\<close> and \<open>t + 0.05\<close> pass for
  every \<open>t\<close>. At \<open>t = 10\<^sup>9\<close> (a Unix time) the float64 values are \<open>2\<^sup>-\<^sup>2\<^sup>3\<close> apart, the
  float64 nearest to \<open>t + 0.05\<close> is \<open>t + 419430 / 2\<^sup>2\<^sup>3\<close>, about \<open>t + 0.04999995\<close>, and
  \<^verbatim>\<open>Check\<close> fails with the spacing error.
\<close>

theorem pathCmd_Check_spacing_counterexample:
  "round_f64 (1000000000 + 1 / 20) = Fin (1000000000 + 419430 / 2 ^ 23) \<and>
   fst (pathCmd_Check bench \<lparr>Coordsys = ''Horizon'',
      Points = [(round_f64 1000000000, Fin 0, Fin 0, Fin 0, Fin 0),
                (round_f64 (1000000000 + 1 / 20), Fin 0, Fin 0, Fin 0, Fin 0)]\<rparr> [])
     = Some PointsTooClose"
  by (simp add: pathCmd_Check_def round_f64_eval)

section \<open>C7: only the first 100 points are validated\<close>

lemma pathCmd_Check_same_outcomes:
  assumes cs: "pathCmd.Coordsys c' = pathCmd.Coordsys c"
    and times: "map fst (Points c') = map fst (Points c)"
    and same: "produced (NewPathScanPattern ext (pathCmd.Coordsys c') (Points c')) 100
        (Iterator (NewPathScanPattern ext (pathCmd.Coordsys c') (Points c')))
      = produced (NewPathScanPattern ext (pathCmd.Coordsys c) (Points c)) 100
        (Iterator (NewPathScanPattern ext (pathCmd.Coordsys c) (Points c)))"
  shows "pathCmd_Check ext c' lg = pathCmd_Check ext c lg"
proof -
  from times have sep: "times_separated (Points c') = times_separated (Points c)"
    by (rule times_separated_map)
  from times have "length (Points c') = length (Points c)"
    by (rule map_eq_imp_length_eq)
  then have len: "(length (Points c') = 0) = (length (Points c) = 0)" by simp
  have loop:
    "check_coordinates (NewPathScanPattern ext (pathCmd.Coordsys c') (Points c')) 100 0
        (Iterator (NewPathScanPattern ext (pathCmd.Coordsys c') (Points c'))) lg
     = check_coordinates (NewPathScanPattern ext (pathCmd.Coordsys c) (Points c)) 100 0
        (Iterator (NewPathScanPattern ext (pathCmd.Coordsys c) (Points c))) lg"
    by (rule check_coordinates_cong[OF same])
  show ?thesis
    unfolding pathCmd_Check_def Let_def cs sep len loop[unfolded cs] ..
qed

lemma pathCmd_Check_reports:
  assumes "pathCmd.Coordsys c = ''Horizon'' \<or> pathCmd.Coordsys c = ''ICRS''"
    and "Points c \<noteq> []" and "times_separated (Points c)"
    and out: "produced (NewPathScanPattern ext (pathCmd.Coordsys c) (Points c)) 100
        (Iterator (NewPathScanPattern ext (pathCmd.Coordsys c) (Points c)))
      = map Produced pts @ Produced pt # rest"
    and valid: "\<forall>p \<in> set pts. verdict p = None" and bad: "verdict pt = Some e"
  shows "fst (pathCmd_Check ext c lg) = Some (PointError (length pts) e)"
proof -
  have "fst (check_coordinates (NewPathScanPattern ext (pathCmd.Coordsys c) (Points c)) 100 0
        (Iterator (NewPathScanPattern ext (pathCmd.Coordsys c) (Points c))) lg)
      = Some (PointError (0 + length pts) e)"
    by (rule check_coordinates_reports[OF out valid bad])
  with assms(1-3) show ?thesis
    by (auto simp: pathCmd_Check_def Let_def)
qed

text \<open>
  With the producer \<open>replay\<close>, which yields the points as they are, the first 100 rounds
  show the first 100 points: two paths with the same times and the same first 100 points
  get the same result, whatever their later points are.
\<close>

lemma pathCmd_Check_replay_later_points:
  assumes "NewPathScanPattern ext = replay"
    and cs: "pathCmd.Coordsys c' = pathCmd.Coordsys c"
    and times: "map fst (Points c') = map fst (Points c)"
    and first: "take 100 (Points c') = take 100 (Points c)"
  shows "pathCmd_Check ext c' lg = pathCmd_Check ext c lg"
proof -
  from times have "length (Points c') = length (Points c)"
    by (rule map_eq_imp_length_eq)
  with first assms(1) have
    "produced (NewPathScanPattern ext (pathCmd.Coordsys c') (Points c')) 100
        (Iterator (NewPathScanPattern ext (pathCmd.Coordsys c') (Points c')))
      = produced (NewPathScanPattern ext (pathCmd.Coordsys c) (Points c)) 100
        (Iterator (NewPathScanPattern ext (pathCmd.Coordsys c) (Points c)))"
    by (simp add: produced_replay)
  from pathCmd_Check_same_outcomes[OF cs times this] show ?thesis .
qed

text \<open>
  C7. Two Path commands with the same coordinate system and the same times, whose
  patterns show the same in their first 100 rounds, get the same result from \<^verbatim>\<open>Check\<close>:
  nothing a pattern produces after its first 100 points has an effect. And when the
  pattern produces valid points and then, within the first 100, a point the validator
  rejects, \<^verbatim>\<open>Check\<close> fails with the error of that point and its index.
\<close>

theorem pathCmd_Check_first_100:
  "(pathCmd.Coordsys c' = pathCmd.Coordsys c \<and>
    map fst (Points c') = map fst (Points c) \<and>
    produced (NewPathScanPattern ext (pathCmd.Coordsys c') (Points c')) 100
        (Iterator (NewPathScanPattern ext (pathCmd.Coordsys c') (Points c')))
      = produced (NewPathScanPattern ext (pathCmd.Coordsys c) (Points c)) 100
        (Iterator (NewPathScanPattern ext (pathCmd.Coordsys c) (Points c)))
    \<longrightarrow> pathCmd_Check ext c' lg = pathCmd_Check ext c lg) \<and>
   ((pathCmd.Coordsys c = ''Horizon'' \<or> pathCmd.Coordsys c = ''ICRS'') \<and>
    Points c \<noteq> [] \<and> times_separated (Points c) \<and>
    produced (NewPathScanPattern ext (pathCmd.Coordsys c) (Points c)) 100
        (Iterator (NewPathScanPattern ext (pathCmd.Coordsys c) (Points c)))
      = map Produced pts @ Produced pt # rest \<and>
    (\<forall>p \<in> set pts. verdict p = None) \<and> verdict pt = Some e
    \<longrightarrow> fst (pathCmd_Check ext c lg) = Some (PointError (length pts) e))"
  using pathCmd_Check_same_outcomes[of c' c ext lg] pathCmd_Check_reports[of c ext pts pt rest e lg]
  by blast

theorem pathCmd_Check_first_100_witness:
  "verdict (point_transfer (Fin (real 100), Fin 400, Fin 0, Fin 0, Fin 0)) \<noteq> None \<and>
   pathCmd_Check bench \<lparr>Coordsys = ''Horizon'',
       Points = ramp 100 @ [(Fin (real 100), Fin 400, Fin 0, Fin 0, Fin 0)]\<rparr> []
     = pathCmd_Check bench \<lparr>Coordsys = ''Horizon'',
       Points = ramp 100 @ [(Fin (real 100), Fin 0, Fin 0, Fin 0, Fin 0)]\<rparr> [] \<and>
   pathCmd_Check bench \<lparr>Coordsys = ''Horizon'',
       Points = ramp 100 @ [(Fin (real 100), Fin 400, Fin 0, Fin 0, Fin 0)]\<rparr> [] = (None, []) \<and>
   fst (pathCmd_Check bench \<lparr>Coordsys = ''Horizon'',
       Points = ramp 2 @ [(Fin (real 2), Fin 400, Fin 0, Fin 0, Fin 0)]\<rparr> [])
     = Some (PointError 2 (OutOfRange CommandedAzimuth (Fin 400) (Fin (- 180)) (Fin 360)))"
proof -
  let ?bad = "(Fin (real 100), Fin 400, Fin 0, Fin 0, Fin 0)"
  let ?good = "(Fin (real 100), Fin 0, Fin 0, Fin 0, Fin 0)"
  let ?c = "\<lparr>Coordsys = ''Horizon'', Points = ramp 100 @ [?bad]\<rparr>"
  let ?c' = "\<lparr>Coordsys = ''Horizon'', Points = ramp 100 @ [?good]\<rparr>"
  let ?d = "\<lparr>Coordsys = ''Horizon'',
    Points = ramp 2 @ [(Fin (real 2), Fin 400, Fin 0, Fin 0, Fin 0)]\<rparr>"
  have first: "pathCmd_Check bench ?c [] = pathCmd_Check bench ?c' []"
    using pathCmd_Check_first_100 [of ?c ?c' bench "[]"]
    by (simp add: bench_def produced_replay ramp_def)
  have d_out: "produced (NewPathScanPattern bench (pathCmd.Coordsys ?d) (Points ?d)) 100
        (Iterator (NewPathScanPattern bench (pathCmd.Coordsys ?d) (Points ?d)))
      = map Produced (map point_transfer (ramp 2))
        @ Produced (point_transfer (Fin (real 2), Fin 400, Fin 0, Fin 0, Fin 0)) # [Exhausted]"
    by (simp add: bench_def produced_replay)
  have index: "fst (pathCmd_Check bench ?d [])
      = Some (PointError 2 (OutOfRange CommandedAzimuth (Fin 400) (Fin (- 180)) (Fin 360)))"
    using pathCmd_Check_first_100 [of ?d ?d bench "[]" "map point_transfer (ramp 2)"
        "point_transfer (Fin (real 2), Fin 400, Fin 0, Fin 0, Fin 0)" "[Exhausted]"
        "OutOfRange CommandedAzimuth (Fin 400) (Fin (- 180)) (Fin 360)"]
      d_out times_separated_ramp[of 2 "Fin 400" "Fin 0" "Fin 0" "Fin 0"]
    by (simp add: verdict_400 verdict_at_rest ramp_def)
  show ?thesis
    using first index pathCmd_Check_ramp[of "Fin 400" "Fin 0" "Fin 0" "Fin 0" "[]"]
    by (simp add: verdict_400)
qed

section \<open>C8: a trajectory that cannot be generated\<close>

text \<open>
  C8. When \<^verbatim>\<open>NewTrackScanPattern\<close> fails, \<^verbatim>\<open>trackCmd.Start\<close> returns that error with a nil
  predicate, and has called nothing on the facade: no upload was started and no mode set.
\<close>

theorem trackCmd_Start_generation_fails:
  assumes "NewTrackScanPattern ext (trackCmd.StartTime cmd) (StopTime cmd) (RA cmd) (Dec cmd)
      (trackCmd.Coordsys cmd) = Inl err"
  shows "trackCmd_Start ext tel cmd = \<lparr>IsDone = None, Err = Some (Foreign err), Issued = []\<rparr>"
  using assms by (simp add: trackCmd_Start_def)

theorem trackCmd_Start_generation_fails_witness:
  "NewTrackScanPattern bench (Fin 100) (Fin 200) (Fin 0) (Fin 0) ''ICRS'' = Inl ''no ephemeris'' \<and>
   trackCmd_Start bench (facade None)
     \<lparr>StartTime = Fin 100, StopTime = Fin 200, RA = Fin 0, Dec = Fin 0, Coordsys = ''ICRS''\<rparr>
   = \<lparr>IsDone = None, Err = Some (Foreign ''no ephemeris''), Issued = []\<rparr>"
  using trackCmd_Start_generation_fails [of bench
      "\<lparr>StartTime = Fin 100, StopTime = Fin 200, RA = Fin 0, Dec = Fin 0, Coordsys = ''ICRS''\<rparr>"
      "''no ephemeris''" "facade None"]
  by (simp add: bench_def)

section \<open>C9: checking twice\<close>




section \<open>C10: the predicate next to a facade error\<close>

text \<open>
  C10. \<^verbatim>\<open>moveToCmd.Start\<close> returns its predicate together with whatever \<^verbatim>\<open>MoveTo\<close>
  answered, and \<^verbatim>\<open>startPattern\<close> its predicate together with whatever \<^verbatim>\<open>ModeSet\<close>
  answered, error or not. Over the four commands, \<^verbatim>\<open>Start\<close> returns a nil predicate
  exactly for a Track command whose trajectory cannot be generated.
\<close>

theorem Start_predicate:
  "IsDone (moveToCmd_Start (ext :: ('am, 'em, 'it) Externals) tel mv) =
     Some (moveToCmd_isDone ext) \<and>
   Err (moveToCmd_Start ext tel mv) =
     map_option Foreign (MoveTo tel (Azimuth mv) (moveToCmd.Elevation mv)) \<and>
   IsDone (startPattern tel pattern :: ('am, 'em, 'it) started) = Some startPattern_isDone \<and>
   Err (startPattern tel pattern :: ('am, 'em, 'it) started) =
     map_option Foreign (ModeSet tel ''ProgramTrack'') \<and>
   (IsDone (Start ext tel c) = None) =
     (\<exists>cmd err. c = Track cmd \<and>
        NewTrackScanPattern ext (trackCmd.StartTime cmd) (StopTime cmd) (RA cmd) (Dec cmd)
          (trackCmd.Coordsys cmd) = Inl err)"
proof -
  have "(IsDone (Start ext tel c) = None) =
     (\<exists>cmd err. c = Track cmd \<and>
        NewTrackScanPattern ext (trackCmd.StartTime cmd) (StopTime cmd) (RA cmd) (Dec cmd)
          (trackCmd.Coordsys cmd) = Inl err)"
    by (cases c)
      (auto simp: moveToCmd_Start_def azScanCmd_Start_def trackCmd_Start_def
        pathCmd_Start_def startPattern_def Let_def split: sum.splits)
  then show ?thesis
    by (simp add: moveToCmd_Start_def startPattern_def Let_def)
qed

theorem Start_predicate_witness:
  "IsDone (moveToCmd_Start bench (facade (Some ''link down''))
      \<lparr>Azimuth = Fin 10, Elevation = Fin 20\<rparr>) = Some (moveToCmd_isDone bench) \<and>
   Err (moveToCmd_Start bench (facade (Some ''link down''))
      \<lparr>Azimuth = Fin 10, Elevation = Fin 20\<rparr>) = Some (Foreign ''link down'') \<and>
   IsDone (startPattern (facade (Some ''link down'')) (replay ''Horizon'' [])
      :: (nat, nat, point list) started) = Some startPattern_isDone \<and>
   Err (startPattern (facade (Some ''link down'')) (replay ''Horizon'' [])
      :: (nat, nat, point list) started) = Some (Foreign ''link down'') \<and>
   IsDone (Start bench (facade (Some ''link down'')) (Track \<lparr>StartTime = Fin 100,
      StopTime = Fin 200, RA = Fin 0, Dec = Fin 0, Coordsys = ''ICRS''\<rparr>)) = None \<and>
   IsDone (Start bench (facade (Some ''link down'')) (Track \<lparr>StartTime = Fin 100,
      StopTime = Fin 200, RA = Fin 0, Dec = Fin 0, Coordsys = ''Horizon''\<rparr>)) \<noteq> None"
  using
    Start_predicate [of bench "facade (Some ''link down'')"
      "\<lparr>Azimuth = Fin 10, Elevation = Fin 20\<rparr>" "replay ''Horizon'' []"
      "Track \<lparr>StartTime = Fin 100, StopTime = Fin 200, RA = Fin 0, Dec = Fin 0,
        Coordsys = ''ICRS''\<rparr>"]
    Start_predicate [of bench "facade (Some ''link down'')"
      "\<lparr>Azimuth = Fin 10, Elevation = Fin 20\<rparr>" "replay ''Horizon'' []"
      "Track \<lparr>StartTime = Fin 100, StopTime = Fin 200, RA = Fin 0, Dec = Fin 0,
        Coordsys = ''Horizon''\<rparr>"]
  by (simp add: bench_def facade_def)

end
